theory Spec2Isabelle
  imports Main "HOL-Library.Sublist" "HOL-Library.AList"
begin

section \<open>Strings, errors and dictionaries\<close>

text \<open>
  Texts are \<^typ>\<open>string\<close>s, one \<^typ>\<open>char\<close> per character of the Python \<open>str\<close>: the
  256 values of \<^typ>\<open>char\<close> stand for the code points \<open>0x00\<close>..\<open>0xFF\<close>, and texts with
  other characters are outside the development. On these code points \<open>str.lower\<close> acts
  character by character: it maps \<open>A\<close>..\<open>Z\<close> to \<open>a\<close>..\<open>z\<close> and the accented capitals
  \<open>0xC0\<close>..\<open>0xDE\<close> (without the multiplication sign \<open>0xD7\<close>) to \<open>0xE0\<close>..\<open>0xFE\<close>, and
  leaves every other character alone. \<open>\d\<close> is \<open>0\<close>..\<open>9\<close>. The white space of \<open>\s\<close> in a
  Python 3 \<open>str\<close> pattern and of \<open>str.strip\<close> is the same set: tab, line feed, vertical
  tab, form feed, carriage return, the four separators \<open>0x1C\<close>..\<open>0x1F\<close>, the blank, the
  next-line control \<open>0x85\<close> and the no-break space \<open>0xA0\<close>.
\<close>

datatype py_error = KeyError string | ValueError | TypeError | AttributeError | IndexError
  | ProviderError string

definition lower_char :: "char \<Rightarrow> char" where
  "lower_char c =
     (case map_of (zip (''ABCDEFGHIJKLMNOPQRSTUVWXYZ'' @
                        [CHR 0xC0, CHR 0xC1, CHR 0xC2, CHR 0xC3, CHR 0xC4, CHR 0xC5, CHR 0xC6,
                         CHR 0xC7, CHR 0xC8, CHR 0xC9, CHR 0xCA, CHR 0xCB, CHR 0xCC, CHR 0xCD,
                         CHR 0xCE, CHR 0xCF, CHR 0xD0, CHR 0xD1, CHR 0xD2, CHR 0xD3, CHR 0xD4,
                         CHR 0xD5, CHR 0xD6, CHR 0xD8, CHR 0xD9, CHR 0xDA, CHR 0xDB, CHR 0xDC,
                         CHR 0xDD, CHR 0xDE])
                       (''abcdefghijklmnopqrstuvwxyz'' @
                        [CHR 0xE0, CHR 0xE1, CHR 0xE2, CHR 0xE3, CHR 0xE4, CHR 0xE5, CHR 0xE6,
                         CHR 0xE7, CHR 0xE8, CHR 0xE9, CHR 0xEA, CHR 0xEB, CHR 0xEC, CHR 0xED,
                         CHR 0xEE, CHR 0xEF, CHR 0xF0, CHR 0xF1, CHR 0xF2, CHR 0xF3, CHR 0xF4,
                         CHR 0xF5, CHR 0xF6, CHR 0xF8, CHR 0xF9, CHR 0xFA, CHR 0xFB, CHR 0xFC,
                         CHR 0xFD, CHR 0xFE])) c of
        Some l \<Rightarrow> l
      | None \<Rightarrow> c)"

definition lower :: "string \<Rightarrow> string" where
  "lower s = map lower_char s"

definition is_digit :: "char \<Rightarrow> bool" where
  "is_digit c = (c \<in> set ''0123456789'')"

definition is_space :: "char \<Rightarrow> bool" where
  "is_space c = (c \<in> set [CHR 0x09, CHR 0x0A, CHR 0x0B, CHR 0x0C, CHR 0x0D,
                            CHR 0x1C, CHR 0x1D, CHR 0x1E, CHR 0x1F, CHR 0x20,
                            CHR 0x85, CHR 0xA0])"

text \<open>\<open>keyword in text\<close> on two strings: \<open>keyword\<close> occurs as a contiguous piece of \<open>text\<close>.\<close>

definition contains :: "string \<Rightarrow> string \<Rightarrow> bool" where
  "contains keyword text = sublist keyword text"

text \<open>\<open>any(word in text for word in words)\<close>.\<close>

definition any_in :: "string list \<Rightarrow> string \<Rightarrow> bool" where
  "any_in words text = list_ex (\<lambda>word. contains word text) words"

text \<open>
  \<open>int(s)\<close>. The program only ever passes the text of a \<open>(\d+)\<close> group. On a non-empty
  string of at most 4300 digits the result is its decimal value, as an unbounded integer.
  A longer string of digits raises \<open>ValueError\<close>: the interpreter refuses to convert more
  than \<open>sys.get_int_max_str_digits()\<close> digits, 4300 unless the deployment changes it, and
  leading zeros count. Every other string is answered by \<open>ValueError\<close> too (Python also
  accepts signs, blanks and underscores, which no call of this program supplies).
\<close>

definition int_max_str_digits :: nat where
  "int_max_str_digits = 4300"

definition digit_val :: "char \<Rightarrow> int" where
  "digit_val c = int (of_char c) - 48"

definition py_int :: "string \<Rightarrow> py_error + int" where
  "py_int s =
     (if s \<noteq> [] \<and> list_all is_digit s
      then (if length s > int_max_str_digits then Inl ValueError
            else Inr (foldl (\<lambda>acc c. 10 * acc + digit_val c) 0 s))
      else Inl ValueError)"

text \<open>
  The values the program stores in its dictionaries, and a dictionary as an association
  list in insertion order with one entry per key. \<open>d.update(other)\<close> stores every entry
  of \<open>other\<close> into \<open>d\<close>: an existing key keeps its place and takes the new value, a new
  key goes to the end.
\<close>

datatype jval = JNone | JInt int | JStr string | JStrs "string list"

type_synonym pydict = "(string \<times> jval) list"


definition dict_get :: "pydict \<Rightarrow> string \<Rightarrow> jval option" where
  "dict_get d k = map_of d k"

text \<open>\<open>sep.join(xs)\<close>.\<close>

fun join :: "string \<Rightarrow> string list \<Rightarrow> string" where
  "join sep [] = []"
| "join sep [x] = x"
| "join sep (x # y # ys) = x @ sep @ join sep (y # ys)"


section \<open>Regular-expression search (\<open>re.search\<close>) for the guest-count patterns\<close>

text \<open>
  The three patterns are sequences of three kinds of pieces: the capturing group
  \<open>(\d+)\<close>, the filler \<open>\s*\<close>, and a non-capturing alternation of literal words
  \<open>(?:w1|w2|...)\<close>. \<open>match_at\<close> is the backtracking matcher of \<open>re\<close> anchored at the
  start of its text: a greedy repetition tries its longest run first and gives characters
  back one at a time, an alternation tries its words from left to right, and the first
  way that lets the rest of the pattern match is the match. The result is the list of
  captured groups.
\<close>

datatype piece = Digits1 | Spaces0 | Words "string list"

fun first_some :: "('a \<Rightarrow> 'b option) \<Rightarrow> 'a list \<Rightarrow> 'b option" where
  "first_some f [] = None"
| "first_some f (x # xs) = (case f x of Some y \<Rightarrow> Some y | None \<Rightarrow> first_some f xs)"

primrec match_at :: "piece list \<Rightarrow> string \<Rightarrow> string list option" where
  "match_at [] s = Some []"
| "match_at (p # ps) s =
     (case p of
        Digits1 \<Rightarrow>
          first_some (\<lambda>k. map_option ((#) (take k s)) (match_at ps (drop k s)))
            (rev [1 ..< Suc (length (takeWhile is_digit s))])
      | Spaces0 \<Rightarrow>
          first_some (\<lambda>k. match_at ps (drop k s))
            (rev [0 ..< Suc (length (takeWhile is_space s))])
      | Words ws \<Rightarrow>
          first_some (\<lambda>w. if prefix w s then match_at ps (drop (length w) s) else None) ws)"

text \<open>\<open>re.search\<close>: the match at the leftmost start position that has one, positions
  \<open>0\<close> to \<open>len(text)\<close> inclusive.\<close>

fun re_search :: "piece list \<Rightarrow> string \<Rightarrow> string list option" where
  "re_search pat [] = match_at pat []"
| "re_search pat (c # cs) =
     (case match_at pat (c # cs) of Some gs \<Rightarrow> Some gs | None \<Rightarrow> re_search pat cs)"

text \<open>\<open>match.group(1)\<close>.\<close>

definition group1 :: "string list \<Rightarrow> py_error + string" where
  "group1 gs = (case gs of [] \<Rightarrow> Inl IndexError | g # _ \<Rightarrow> Inr g)"

section \<open>The field extractor (\<open>extract_event_details\<close>)\<close>

definition event_types :: "string list" where
  "event_types = [''birthday'', ''anniversary'', ''wedding'', ''corporate'', ''party'',
                  ''celebration'', ''dinner'', ''lunch'']"

definition guest_patterns :: "piece list list" where
  "guest_patterns =
     [[Digits1, Spaces0, Words [''people'', ''guests'', ''persons'']],
      [Words [''for'', ''around'', ''about''], Spaces0, Digits1],
      [Digits1, Spaces0, Words [''pax'', ''attendees'']]]"

definition dietary_keywords :: "(string \<times> string list) list" where
  "dietary_keywords =
     [(''vegan'', [''vegan'']),
      (''vegetarian'', [''vegetarian'', ''veggie'']),
      (''gluten-free'', [''gluten-free'', ''gluten free'', ''celiac'']),
      (''dairy-free'', [''dairy-free'', ''dairy free'', ''lactose'']),
      (''low-carb'', [''low-carb'', ''low carb'', ''keto'']),
      (''halal'', [''halal'']),
      (''kosher'', [''kosher''])]"

definition theme_keywords :: "string list" where
  "theme_keywords = [''retro'', ''vintage'', ''modern'', ''rustic'', ''elegant'', ''casual'',
                     ''formal'', ''themed'']"

text \<open>The loop \<open>for w in vocabulary: if w in text_lower: field = w; break\<close>, from \<open>None\<close>.\<close>

fun first_term :: "string list \<Rightarrow> string \<Rightarrow> string option" where
  "first_term [] text_lower = None"
| "first_term (w # ws) text_lower =
     (if contains w text_lower then Some w else first_term ws text_lower)"

text \<open>The loop over \<open>guest_patterns\<close>: the first pattern that matches sets the field to
  \<open>int(match.group(1))\<close> and ends the loop.\<close>

fun guest_count :: "piece list list \<Rightarrow> string \<Rightarrow> py_error + int option" where
  "guest_count [] text_lower = Inr None"
| "guest_count (pat # pats) text_lower =
     (case re_search pat text_lower of
        Some gs \<Rightarrow>
          (case group1 gs of
             Inl e \<Rightarrow> Inl e
           | Inr g \<Rightarrow> (case py_int g of Inl e \<Rightarrow> Inl e | Inr n \<Rightarrow> Inr (Some n)))
      | None \<Rightarrow> guest_count pats text_lower)"

text \<open>The loop over \<open>dietary_keywords.items()\<close>, appending to the list.\<close>

fun dietary_preferences :: "(string \<times> string list) list \<Rightarrow> string \<Rightarrow> string list" where
  "dietary_preferences [] text_lower = []"
| "dietary_preferences ((diet_type, keywords) # rest) text_lower =
     (if any_in keywords text_lower
      then diet_type # dietary_preferences rest text_lower
      else dietary_preferences rest text_lower)"

definition opt_str :: "string option \<Rightarrow> jval" where
  "opt_str x = (case x of None \<Rightarrow> JNone | Some s \<Rightarrow> JStr s)"

definition opt_int :: "int option \<Rightarrow> jval" where
  "opt_int x = (case x of None \<Rightarrow> JNone | Some n \<Rightarrow> JInt n)"

definition extract_event_details :: "string \<Rightarrow> py_error + pydict" where
  "extract_event_details conversation_text =
     (let text_lower = lower conversation_text in
      case guest_count guest_patterns text_lower of
        Inl e \<Rightarrow> Inl e
      | Inr gc \<Rightarrow>
          Inr [(''eventType'', opt_str (first_term event_types text_lower)),
               (''guestCount'', opt_int gc),
               (''theme'', opt_str (first_term theme_keywords text_lower)),
               (''dietaryPreferences'', JStrs (dietary_preferences dietary_keywords text_lower)),
               (''specialRequests'', JStrs []),
               (''budget'', JNone),
               (''date'', JNone)])"

section \<open>Fallback responses (\<open>_get_fallback_response\<close>)\<close>

text \<open>
  The five canned texts hold emoji and bullet characters, beyond the code points of
  \<^typ>\<open>char\<close>; they enter as the table \<open>fallback_responses\<close>, looked up by the key
  the code uses.
\<close>

definition get_fallback_response :: "(string \<Rightarrow> string) \<Rightarrow> string \<Rightarrow> string" where
  "get_fallback_response fallback_responses user_message =
     (let message_lower = lower user_message in
      if any_in [''hello'', ''hi'', ''start'', ''help''] message_lower
        then fallback_responses ''greeting''
      else if any_in [''birthday'', ''bday''] message_lower
        then fallback_responses ''birthday''
      else if any_in [''theme'', ''decoration'', ''decor''] message_lower
        then fallback_responses ''theme''
      else if any_in [''menu'', ''food'', ''eat'', ''dietary''] message_lower
        then fallback_responses ''menu''
      else fallback_responses ''default'')"

section \<open>Menu items and the menu selector (\<open>suggest_menu_items\<close>)\<close>

text \<open>
  A menu item is a dictionary read from the document store, so any key but \<open>id\<close> may be
  missing: those fields are options. The price is carried as the text that \<open>str\<close> prints
  for it (\<open>12.99\<close> is \<open>''12.99''\<close>); the program never computes with it.
\<close>

record menu_item =
  ident :: string
  name :: "string option"
  category :: "string option"
  ingredients :: "string list option"
  dietType :: "string list option"
  price :: "string option"
  imageURL :: "string option"

text \<open>\<open>item.get('dietType', [])\<close> and \<open>item.get('category', 'Other')\<close>.\<close>

definition item_diets :: "menu_item \<Rightarrow> string list" where
  "item_diets item = (case dietType item of None \<Rightarrow> [] | Some ds \<Rightarrow> ds)"

definition item_category :: "menu_item \<Rightarrow> string" where
  "item_category item = (case category item of None \<Rightarrow> ''Other'' | Some c \<Rightarrow> c)"

text \<open>
  \<open>event_details.get('dietaryPreferences', [])\<close>. Every dictionary the program builds
  holds a list of tags under that key; a missing key or \<open>None\<close> fails the test
  \<open>if dietary_prefs\<close> like the empty list, and other kinds of value are not considered.
\<close>

definition dietary_prefs_of :: "pydict \<Rightarrow> string list" where
  "dietary_prefs_of event_details =
     (case dict_get event_details ''dietaryPreferences'' of Some (JStrs l) \<Rightarrow> l | _ \<Rightarrow> [])"

text \<open>\<open>any(pref in item_diets for pref in dietary_prefs)\<close>.\<close>

definition diet_match :: "string list \<Rightarrow> menu_item \<Rightarrow> bool" where
  "diet_match dietary_prefs item = list_ex (\<lambda>pref. pref \<in> set (item_diets item)) dietary_prefs"

text \<open>The dietary filter with its fall-back to the whole list.\<close>

definition diet_filter :: "string list \<Rightarrow> menu_item list \<Rightarrow> menu_item list" where
  "diet_filter dietary_prefs menu_items =
     (if dietary_prefs \<noteq> [] then
        (let filtered_items = filter (diet_match dietary_prefs) menu_items
         in if filtered_items \<noteq> [] then filtered_items else menu_items)
      else menu_items)"

text \<open>
  The variety loop, with its two variables \<open>suggested_items\<close> and \<open>categories_covered\<close>;
  \<open>max_items\<close> is a Python integer and may be negative.
\<close>

fun variety :: "int \<Rightarrow> menu_item list \<Rightarrow> menu_item list \<Rightarrow> string set \<Rightarrow> menu_item list" where
  "variety max_items [] suggested_items categories_covered = suggested_items"
| "variety max_items (item # rest) suggested_items categories_covered =
     (if int (length suggested_items) \<ge> max_items then suggested_items
      else if card categories_covered < 3 \<or> item_category item \<notin> categories_covered
        then variety max_items rest (suggested_items @ [item])
               (insert (item_category item) categories_covered)
      else variety max_items rest suggested_items categories_covered)"

text \<open>\<open>xs[:n]\<close> for a Python integer \<open>n\<close>: a negative \<open>n\<close> counts from the end.\<close>

definition slice_to :: "int \<Rightarrow> 'a list \<Rightarrow> 'a list" where
  "slice_to n xs = (if n \<ge> 0 then take (nat n) xs else take (length xs - nat (- n)) xs)"

definition suggest_menu_items :: "menu_item list \<Rightarrow> pydict \<Rightarrow> int \<Rightarrow> menu_item list" where
  "suggest_menu_items menu_items event_details max_items =
     (if menu_items = [] then []
      else slice_to max_items
             (variety max_items (diet_filter (dietary_prefs_of event_details) menu_items) [] {}))"

section \<open>The prompt composer (\<open>_build_enhanced_prompt\<close>)\<close>

type_synonym datetime = nat

record exchange =
  user :: string
  assistant :: string
  timestamp :: datetime

text \<open>
  One line of the menu section. The f-string reads \<open>item['name']\<close>, \<open>item['price']\<close> and
  \<open>item['category']\<close> in that order, and a missing key raises \<open>KeyError\<close>.
\<close>

definition item_line :: "menu_item \<Rightarrow> py_error + string" where
  "item_line item =
     (let dietary_info = join '', '' (item_diets item) in
      case name item of
        None \<Rightarrow> Inl (KeyError ''name'')
      | Some n \<Rightarrow>
      (case price item of
        None \<Rightarrow> Inl (KeyError ''price'')
      | Some p \<Rightarrow>
      (case category item of
        None \<Rightarrow> Inl (KeyError ''category'')
      | Some c \<Rightarrow>
          Inr (''- '' @ n @ '' ($'' @ p @ '') - '' @ c @ '' - Dietary: '' @ dietary_info))))"

fun item_lines :: "menu_item list \<Rightarrow> py_error + string list" where
  "item_lines [] = Inr []"
| "item_lines (item # rest) =
     (case item_line item of
        Inl e \<Rightarrow> Inl e
      | Inr l \<Rightarrow> (case item_lines rest of Inl e \<Rightarrow> Inl e | Inr ls \<Rightarrow> Inr (l # ls)))"

text \<open>The menu section: nothing for an empty (or absent) list, else the heading and one
  line for each of \<open>menu_items[:10]\<close>.\<close>

definition menu_section :: "menu_item list \<Rightarrow> py_error + string list" where
  "menu_section menu_items =
     (if menu_items = [] then Inr []
      else case item_lines (take 10 menu_items) of
             Inl e \<Rightarrow> Inl e
           | Inr ls \<Rightarrow> Inr ((CHR 0x0A # ''AVAILABLE MENU ITEMS:'') # ls))"

text \<open>The context section: \<open>json.dumps(context, indent=2)\<close> is the parameter
  \<open>json_dumps\<close>; an empty dictionary and \<open>None\<close> both fail the test \<open>if context\<close>.\<close>

definition context_section :: "(pydict \<Rightarrow> string) \<Rightarrow> pydict \<Rightarrow> string list" where
  "context_section json_dumps context =
     (if context \<noteq> [] then [(CHR 0x0A # ''CONTEXT: '') @ json_dumps context] else [])"

text \<open>The history section, over \<open>conversation_history[-3:]\<close>; each reply is cut by
  \<open>[:200]\<close> and followed by three dots.\<close>

definition last3 :: "'a list \<Rightarrow> 'a list" where
  "last3 xs = drop (length xs - 3) xs"

definition entry_lines :: "exchange \<Rightarrow> string list" where
  "entry_lines entry =
     [''User: '' @ user entry, ''Assistant: '' @ take 200 (assistant entry) @ ''...'']"

definition history_section :: "exchange list \<Rightarrow> string list" where
  "history_section conversation_history =
     (if length conversation_history > 0
      then (CHR 0x0A # ''RECENT CONVERSATION:'') # concat (map entry_lines (last3 conversation_history))
      else [])"

definition prompt_parts ::
  "string \<Rightarrow> (pydict \<Rightarrow> string) \<Rightarrow> exchange list \<Rightarrow> string \<Rightarrow> menu_item list \<Rightarrow> pydict
     \<Rightarrow> py_error + string list" where
  "prompt_parts system_prompt json_dumps conversation_history user_message menu_items context =
     (case menu_section menu_items of
        Inl e \<Rightarrow> Inl e
      | Inr menu \<Rightarrow>
          Inr ([system_prompt] @ menu @ context_section json_dumps context
               @ history_section conversation_history
               @ [(CHR 0x0A # ''CURRENT USER MESSAGE: '') @ user_message,
                  CHR 0x0A # ''Please provide a helpful, creative response as the Event Planning Assistant:'']))"

definition build_enhanced_prompt ::
  "string \<Rightarrow> (pydict \<Rightarrow> string) \<Rightarrow> exchange list \<Rightarrow> string \<Rightarrow> menu_item list \<Rightarrow> pydict
     \<Rightarrow> py_error + string" where
  "build_enhanced_prompt system_prompt json_dumps conversation_history user_message menu_items context =
     (case prompt_parts system_prompt json_dumps conversation_history user_message menu_items context of
        Inl e \<Rightarrow> Inl e
      | Inr parts \<Rightarrow> Inr (join [CHR 0x0A] parts))"

section \<open>The assistant (\<open>generate_response\<close>)\<close>

text \<open>
  The attribute \<open>self.chat\<close> after \<open>initialize_ai\<close>: never assigned (no API key: the method
  returns before the assignment), \<open>None\<close> (the initialisation raised), or a chat session
  of the provider.
\<close>

datatype chat_handle = ChatUnset | ChatNone | ChatSession

record assistant_state =
  chat :: chat_handle
  conversation_history :: "exchange list"

text \<open>
  What the assistant takes from outside: the system prompt and the table of canned
  replies (constant texts), \<open>json.dumps\<close>, the provider call \<open>chat.send_message(prompt)\<close>
  followed by \<open>response.text\<close> (it returns the text or raises), and the reading of
  \<open>datetime.now()\<close> for the recorded exchange.
\<close>

record provider =
  system_prompt :: string
  fallback_responses :: "string \<Rightarrow> string"
  json_dumps :: "pydict \<Rightarrow> string"
  send_message :: "string \<Rightarrow> py_error + string"
  exchange_time :: datetime



section \<open>The catalog (\<open>get_menu_items\<close>, \<open>_get_mock_menu_items\<close>)\<close>

definition mock_items :: "menu_item list" where
  "mock_items =
     [\<lparr>ident = ''1'', name = Some ''Classic Caesar Salad'', category = Some ''Appetizers'',
       ingredients = Some [''romaine lettuce'', ''parmesan'', ''croutons'', ''caesar dressing''],
       dietType = Some [''vegetarian''], price = Some ''12.99'',
       imageURL = Some ''https://example.com/caesar.jpg''\<rparr>,
      \<lparr>ident = ''2'', name = Some ''Grilled Salmon'', category = Some ''Main Course'',
       ingredients = Some [''atlantic salmon'', ''lemon'', ''herbs'', ''vegetables''],
       dietType = Some [''gluten-free''], price = Some ''24.99'',
       imageURL = Some ''https://example.com/salmon.jpg''\<rparr>,
      \<lparr>ident = ''3'', name = Some ''Quinoa Buddha Bowl'', category = Some ''Main Course'',
       ingredients = Some [''quinoa'', ''avocado'', ''chickpeas'', ''kale'', ''tahini''],
       dietType = Some [''vegan'', ''gluten-free''], price = Some ''16.99'',
       imageURL = Some ''https://example.com/buddha-bowl.jpg''\<rparr>,
      \<lparr>ident = ''4'', name = Some ''Chocolate Lava Cake'', category = Some ''Desserts'',
       ingredients = Some [''dark chocolate'', ''butter'', ''eggs'', ''flour'', ''vanilla''],
       dietType = Some [''vegetarian''], price = Some ''8.99'',
       imageURL = Some ''https://example.com/lava-cake.jpg''\<rparr>,
      \<lparr>ident = ''5'', name = Some ''Vegan Mushroom Risotto'', category = Some ''Main Course'',
       ingredients = Some [''arborio rice'', ''mushrooms'', ''nutritional yeast'', ''vegetable broth''],
       dietType = Some [''vegan'', ''gluten-free''], price = Some ''18.99'',
       imageURL = Some ''https://example.com/risotto.jpg''\<rparr>]"

text \<open>\<open>if diet_filters\<close>: neither \<open>None\<close> nor the empty list.\<close>

definition truthy :: "string list option \<Rightarrow> bool" where
  "truthy diet_filters = (case diet_filters of None \<Rightarrow> False | Some fs \<Rightarrow> fs \<noteq> [])"

text \<open>\<open>any(diet in item['dietType'] for diet in diet_filters)\<close>; each of the five demo items
  has the key \<open>dietType\<close>.\<close>

definition mock_match :: "string list \<Rightarrow> menu_item \<Rightarrow> bool" where
  "mock_match diet_filters item =
     (case dietType item of
        None \<Rightarrow> False
      | Some ds \<Rightarrow> list_ex (\<lambda>diet. diet \<in> set ds) diet_filters)"

definition get_mock_menu_items :: "string list option \<Rightarrow> menu_item list" where
  "get_mock_menu_items diet_filters =
     (case diet_filters of
        None \<Rightarrow> mock_items
      | Some fs \<Rightarrow> if fs \<noteq> [] then filter (mock_match fs) mock_items else mock_items)"

text \<open>
  The document store is either absent (\<open>_db is None\<close>) or a query: given the filter of
  the \<open>where\<close> clause, if any, it streams the documents or raises.
\<close>

type_synonym store = "(string list option \<Rightarrow> py_error + menu_item list) option"

definition get_menu_items :: "store \<Rightarrow> string list option \<Rightarrow> menu_item list" where
  "get_menu_items db diet_filters =
     (case db of
        None \<Rightarrow> get_mock_menu_items diet_filters
      | Some query \<Rightarrow>
          (case query (if truthy diet_filters then diet_filters else None) of
             Inl e \<Rightarrow> get_mock_menu_items diet_filters
           | Inr menu_items \<Rightarrow> menu_items))"

section \<open>The chat page (\<open>main_chat_interface\<close>)\<close>



text \<open>One press of the send button: the provider and the store as they answer this time,
  and the two readings of the clock for the entries of the chat history.\<close>

record world =
  llm :: provider
  db :: store
  user_time :: datetime
  reply_time :: datetime






section \<open>Notions used in the statements and their examples\<close>




text \<open>A menu item that has an identifier and a category and nothing else, for examples.\<close>

definition sample_item :: "string \<Rightarrow> string \<Rightarrow> menu_item" where
  "sample_item i c =
     \<lparr>ident = i, name = None, category = Some c, ingredients = None, dietType = None,
      price = None, imageURL = None\<rparr>"

text \<open>An exchange with its reply cut to the first 200 characters.\<close>

definition truncate_reply :: "exchange \<Rightarrow> exchange" where
  "truncate_reply entry = entry\<lparr>assistant := take 200 (assistant entry)\<rparr>"







section \<open>Facts about the matcher and the guest count\<close>















section \<open>Facts about the vocabularies and the dietary table\<close>












section \<open>Facts about the menu selector\<close>

lemma variety_shape:
  "\<exists>ys. variety mx items sug cov = sug @ ys \<and> subseq ys items"
proof (induction mx items sug cov rule: variety.induct)
  case (1 mx sug cov)
  then show ?case by simp
next
  case (2 mx item rest sug cov)
  show ?case
  proof (cases "int (length sug) \<ge> mx")
    case True
    then show ?thesis by simp
  next
    case False
    show ?thesis
    proof (cases "card cov < 3 \<or> item_category item \<notin> cov")
      case True
      from 2(1)[OF False True] obtain ys where
        "variety mx rest (sug @ [item]) (insert (item_category item) cov) = (sug @ [item]) @ ys"
        "subseq ys rest" by blast
      with False True have "variety mx (item # rest) sug cov = sug @ (item # ys)
          \<and> subseq (item # ys) (item # rest)" by simp
      then show ?thesis by blast
    next
      case no: False
      from 2(2)[OF False no] obtain ys where
        "variety mx rest sug cov = sug @ ys" "subseq ys rest" by blast
      with False no have "variety mx (item # rest) sug cov = sug @ ys
          \<and> subseq ys (item # rest)" by (simp add: subseq_drop_many[of ys rest "[item]", simplified])
      then show ?thesis by blast
    qed
  qed
qed

lemma variety_length:
  "int (length (variety mx items sug cov)) \<le> max (int (length sug)) mx"
  by (induction mx items sug cov rule: variety.induct) auto

lemma variety_first:
  "1 \<le> mx \<Longrightarrow> variety mx (item # rest) [] {} \<noteq> []"
  using variety_shape[of mx rest "[item]" "{item_category item}"] by auto

lemma diet_filter_subseq: "subseq (diet_filter prefs items) items"
  by (simp add: diet_filter_def Let_def)

lemma diet_filter_nonempty: "items \<noteq> [] \<Longrightarrow> diet_filter prefs items \<noteq> []"
  by (simp add: diet_filter_def Let_def)

lemma diet_filter_fallback:
  "\<forall>item\<in>set items. \<not> diet_match prefs item \<Longrightarrow> diet_filter prefs items = items"
  by (simp add: diet_filter_def Let_def filter_empty_conv)

lemma slice_to_subseq: "subseq (slice_to n xs) xs"
  by (auto simp: slice_to_def intro: prefix_imp_subseq take_is_prefix)

lemma slice_to_length: "0 \<le> n \<Longrightarrow> int (length (slice_to n xs)) \<le> n"
  by (simp add: slice_to_def)

lemma slice_to_id: "int (length xs) \<le> n \<Longrightarrow> slice_to n xs = xs"
  by (auto simp: slice_to_def)

lemma suggest_subseq: "subseq (suggest_menu_items menu_items event_details max_items) menu_items"
proof -
  obtain ys where ys: "variety max_items
      (diet_filter (dietary_prefs_of event_details) menu_items) [] {} = [] @ ys"
    "subseq ys (diet_filter (dietary_prefs_of event_details) menu_items)"
    using variety_shape by blast
  have "subseq (slice_to max_items ys) menu_items"
    using slice_to_subseq ys(2) diet_filter_subseq by (meson subseq_order.order_trans)
  with ys(1) show ?thesis by (simp add: suggest_menu_items_def)
qed

lemma suggest_nonempty:
  assumes "menu_items \<noteq> []" "1 \<le> max_items"
  shows "suggest_menu_items menu_items event_details max_items \<noteq> []"
proof -
  let ?f = "diet_filter (dietary_prefs_of event_details) menu_items"
  from assms(1) obtain item rest where f: "?f = item # rest"
    using diet_filter_nonempty by (cases ?f) auto
  have "int (length (variety max_items ?f [] {})) \<le> max_items"
    using variety_length[of max_items ?f "[]" "{}"] assms(2) by simp
  then have "slice_to max_items (variety max_items ?f [] {}) = variety max_items ?f [] {}"
    by (rule slice_to_id)
  moreover have "variety max_items ?f [] {} \<noteq> []"
    unfolding f by (rule variety_first[OF assms(2)])
  ultimately show ?thesis using assms(1) by (simp add: suggest_menu_items_def)
qed

section \<open>Facts about the catalog\<close>

lemma mock_match_iff:
  "mock_match fs item \<longleftrightarrow> (\<exists>diet\<in>set fs. diet \<in> set (item_diets item))"
  by (simp add: mock_match_def item_diets_def list_ex_iff split: option.splits)

section \<open>Facts about the prompt composer\<close>

lemma item_lines_length: "item_lines items = Inr ls \<Longrightarrow> length ls = length items"
  by (induction items arbitrary: ls) (auto split: sum.splits)

lemma menu_section_take: "menu_section (take 10 menu_items) = menu_section menu_items"
  by (cases menu_items) (simp_all add: menu_section_def)

lemma menu_section_length: "menu_section menu_items = Inr ls \<Longrightarrow> length ls \<le> 11"
  by (auto simp: menu_section_def split: if_splits sum.splits dest!: item_lines_length)

lemma last3_length: "length (last3 xs) \<le> 3"
  by (simp add: last3_def)

lemma last3_short: "length xs \<le> 3 \<Longrightarrow> last3 xs = xs"
  by (simp add: last3_def)

lemma last3_Nil_iff: "last3 xs = [] \<longleftrightarrow> xs = []"
  by (cases xs) (auto simp: last3_def)

lemma entry_lines_truncate: "entry_lines (truncate_reply entry) = entry_lines entry"
  by (simp add: entry_lines_def truncate_reply_def)

lemma history_section_truncate:
  "history_section (map truncate_reply (last3 hist))
     = history_section hist"
proof -
  have "last3 (map truncate_reply (last3 hist))
      = map truncate_reply (last3 hist)"
    by (rule last3_short) (simp add: last3_length)
  moreover have "entry_lines \<circ> truncate_reply = entry_lines"
    by (rule ext) (simp add: entry_lines_truncate)
  ultimately show ?thesis
    using last3_Nil_iff[of hist]
    by (simp add: history_section_def)
qed

lemma concat_entry_lines_length: "length (concat (map entry_lines xs)) = 2 * length xs"
  by (induction xs) (simp_all add: entry_lines_def)

lemma history_section_length: "length (history_section hist) \<le> 7"
  using last3_length[of hist]
  by (simp add: history_section_def concat_entry_lines_length)

section \<open>Extraction from a longer text\<close>

















section \<open>A guest count of more digits than \<open>int\<close> converts\<close>








section \<open>The profile along a conversation\<close>






















text \<open>In \<open>Formal party, BIRTHDAY: 30 guests, retro\<close> the words \<open>party\<close> and \<open>formal\<close> come
  first in the text, and \<open>birthday\<close> and \<open>retro\<close>, first in their lists, are the result.\<close>

section \<open>Facts about the assistant\<close>




section \<open>Guest-count priority (C1)\<close>

text \<open>
  C1, as it is written: for the text \<open>for 20, about 15 people\<close> the extracted guest count is
  20. The program yields 15, so the statement fails at this very input: neither the guest
  count nor the returned dictionary is the one with 20.
\<close>

theorem guest_priority_counterexample:
  "guest_count guest_patterns (lower ''for 20, about 15 people'') \<noteq> Inr (Some 20)
   \<and> extract_event_details ''for 20, about 15 people'' \<noteq>
     Inr [(''eventType'', JNone), (''guestCount'', JInt 20), (''theme'', JNone),
          (''dietaryPreferences'', JStrs []), (''specialRequests'', JStrs []),
          (''budget'', JNone), (''date'', JNone)]"
  by code_simp

text \<open>
  C1, amended: for the text \<open>for 20, about 15 people\<close> the extracted guest count is 15. The
  pattern \<open><N> people|guests|persons\<close> is the first of the list and finds \<open>15 people\<close>, so
  the loop ends there; the pattern \<open>for|around|about <N>\<close>, second in the list, would
  capture 20 (it does when the first pattern is taken away) but is never tried.
\<close>

theorem guest_priority_people_first:
  "extract_event_details ''for 20, about 15 people'' =
     Inr [(''eventType'', JNone), (''guestCount'', JInt 15), (''theme'', JNone),
          (''dietaryPreferences'', JStrs []), (''specialRequests'', JStrs []),
          (''budget'', JNone), (''date'', JNone)]
   \<and> re_search (guest_patterns ! 0) (lower ''for 20, about 15 people'') = Some [''15'']
   \<and> re_search (guest_patterns ! 1) (lower ''for 20, about 15 people'') = Some [''20'']
   \<and> guest_count guest_patterns (lower ''for 20, about 15 people'') = Inr (Some 15)
   \<and> guest_count (tl guest_patterns) (lower ''for 20, about 15 people'') = Inr (Some 20)"
  by code_simp

section \<open>Fallback selection (C10)\<close>

text \<open>
  C10: the greeting group is tested first and by plain containment, so every message
  whose lower-cased text holds \<open>hi\<close> anywhere (inside a longer word too) gets the greeting
  reply, whatever other keywords it holds.
\<close>

theorem hi_gets_greeting:
  "contains ''hi'' (lower user_message) \<Longrightarrow>
     get_fallback_response responses user_message = responses ''greeting''"
  by (simp add: get_fallback_response_def any_in_def)

text \<open>The message \<open>Everything on this birthday menu\<close> holds \<open>hi\<close> only inside \<open>Everything\<close>
  and \<open>this\<close>, and holds keywords of the birthday and menu groups as well.\<close>

theorem hi_gets_greeting_witness:
  "contains ''hi'' (lower ''Everything on this birthday menu'')
   \<and> \<not> contains ''hi '' (lower ''Everything on this birthday menu'')
   \<and> contains ''menu'' (lower ''Everything on this birthday menu'')
   \<and> contains ''birthday'' (lower ''Everything on this birthday menu'')
   \<and> get_fallback_response id ''Everything on this birthday menu'' = ''greeting''"
proof -
  have h: "contains ''hi'' (lower ''Everything on this birthday menu'')"
    by code_simp
  have r: "\<not> contains ''hi '' (lower ''Everything on this birthday menu'')
     \<and> contains ''menu'' (lower ''Everything on this birthday menu'')
     \<and> contains ''birthday'' (lower ''Everything on this birthday menu'')"
    by code_simp
  from hi_gets_greeting[OF h, of id] h r show ?thesis by simp
qed

section \<open>When the extractor raises (C8)\<close>




section \<open>Dietary preferences accumulate (C9)\<close>




section \<open>The category-diversity example (C4)\<close>

text \<open>
  C4: for a catalog of six items whose categories are, in order, A, A, B, C, A, D (four
  different categories) and a profile without dietary preferences, \<open>suggest_menu_items\<close>
  with \<open>max_items = 4\<close> returns exactly the first, second, third and fourth item. The
  second item passes the admission test because only one category has been counted, and
  the fifth item fails it: three categories are covered and its category A is one of them.
  With \<open>max_items = 5\<close> the fifth item is indeed the one left out.
\<close>

theorem suggest_category_example:
  assumes "item_category a1 = A" "item_category a2 = A" "item_category a3 = A"
    and "item_category b1 = B" "item_category c1 = C" "item_category d1 = D"
    and "distinct [A, B, C, D]"
    and "dietary_prefs_of event_details = []"
  shows "suggest_menu_items [a1, a2, b1, c1, a3, d1] event_details 4 = [a1, a2, b1, c1]
     \<and> card {item_category a1} < 3
     \<and> \<not> (card {item_category a1, item_category b1, item_category c1} < 3
           \<or> item_category a3 \<notin> {item_category a1, item_category b1, item_category c1})
     \<and> suggest_menu_items [a1, a2, b1, c1, a3, d1] event_details 5 = [a1, a2, b1, c1, d1]"
proof -
  from assms(7) have ne: "A \<noteq> B" "B \<noteq> A" "A \<noteq> C" "C \<noteq> A" "A \<noteq> D" "D \<noteq> A"
    "B \<noteq> C" "C \<noteq> B" "B \<noteq> D" "D \<noteq> B" "C \<noteq> D" "D \<noteq> C"
    by auto
  from assms(1-6) assms(8) ne show ?thesis
    by (simp add: suggest_menu_items_def diet_filter_def slice_to_def)
qed

text \<open>The six items \<open>A1, A2, B1, C1, A3, D1\<close> and the empty profile.\<close>

theorem suggest_category_example_witness:
  "suggest_menu_items
     [sample_item ''A1'' ''A'', sample_item ''A2'' ''A'', sample_item ''B1'' ''B'',
      sample_item ''C1'' ''C'', sample_item ''A3'' ''A'', sample_item ''D1'' ''D''] [] 4
   = [sample_item ''A1'' ''A'', sample_item ''A2'' ''A'', sample_item ''B1'' ''B'',
      sample_item ''C1'' ''C'']
   \<and> distinct [''A'', ''B'', ''C'', ''D'']
   \<and> dietary_prefs_of [] = []"
proof -
  have c: "item_category (sample_item i c) = c" for i c
    by (simp add: item_category_def sample_item_def)
  have d: "distinct [''A'', ''B'', ''C'', ''D'']" by simp
  have p: "dietary_prefs_of [] = []" by (simp add: dietary_prefs_of_def dict_get_def)
  from suggest_category_example[OF c[of "''A1''" "''A''"] c[of "''A2''" "''A''"]
      c[of "''A3''" "''A''"] c[of "''B1''" "''B''"] c[of "''C1''" "''C''"] c[of "''D1''" "''D''"] d p] d p
  show ?thesis by blast
qed

section \<open>Bounds of the menu selector (C5)\<close>

text \<open>
  C5: for every catalog, profile and \<open>max_items\<close>, the selector returns at most
  \<open>max_items\<close> items (none at all for a negative \<open>max_items\<close>), the result is a
  subsequence of the catalog, so every returned item is an item of the catalog, the empty
  catalog gives the empty list, and when no item matches the dietary preferences the
  result is the one of the unfiltered catalog, that is the result for a profile without
  preferences. From a non-empty catalog and \<open>max_items\<close> of at least 1 the result is never
  empty.
\<close>

theorem suggest_bounded:
  "(0 \<le> max_items \<longrightarrow>
      int (length (suggest_menu_items menu_items event_details max_items)) \<le> max_items)
   \<and> (max_items < 0 \<longrightarrow> suggest_menu_items menu_items event_details max_items = [])
   \<and> subseq (suggest_menu_items menu_items event_details max_items) menu_items
   \<and> set (suggest_menu_items menu_items event_details max_items) \<subseteq> set menu_items
   \<and> suggest_menu_items [] event_details max_items = []
   \<and> ((\<forall>item\<in>set menu_items. \<not> diet_match (dietary_prefs_of event_details) item) \<longrightarrow>
        suggest_menu_items menu_items event_details max_items
          = suggest_menu_items menu_items [] max_items)
   \<and> (menu_items \<noteq> [] \<and> 1 \<le> max_items \<longrightarrow>
        suggest_menu_items menu_items event_details max_items \<noteq> [])"
proof -
  have 1: "0 \<le> max_items \<longrightarrow>
      int (length (suggest_menu_items menu_items event_details max_items)) \<le> max_items"
    by (simp add: suggest_menu_items_def slice_to_length)
  have 2: "max_items < 0 \<longrightarrow> suggest_menu_items menu_items event_details max_items = []"
  proof
    assume neg: "max_items < 0"
    have "variety max_items xs [] {} = []" for xs
      using neg by (cases xs) auto
    then show "suggest_menu_items menu_items event_details max_items = []"
      by (simp add: suggest_menu_items_def slice_to_def)
  qed
  have 3: "subseq (suggest_menu_items menu_items event_details max_items) menu_items"
    by (rule suggest_subseq)
  have 4: "set (suggest_menu_items menu_items event_details max_items) \<subseteq> set menu_items"
    using 3 by (auto dest: list_emb_set)
  have 5: "suggest_menu_items [] event_details max_items = []"
    by (simp add: suggest_menu_items_def)
  have 6: "(\<forall>item\<in>set menu_items. \<not> diet_match (dietary_prefs_of event_details) item) \<longrightarrow>
        suggest_menu_items menu_items event_details max_items
          = suggest_menu_items menu_items [] max_items"
    by (simp add: suggest_menu_items_def diet_filter_fallback dietary_prefs_of_def dict_get_def
        diet_filter_def)
  have 7: "menu_items \<noteq> [] \<and> 1 \<le> max_items \<longrightarrow>
        suggest_menu_items menu_items event_details max_items \<noteq> []"
    using suggest_nonempty by blast
  show ?thesis by (intro conjI 1 2 3 4 5 6 7)
qed

text \<open>The five demo items and the preference \<open>halal\<close>, which none of them carries.\<close>

theorem suggest_bounded_witness:
  "(0::int) \<le> 2
   \<and> int (length (suggest_menu_items mock_items [(''dietaryPreferences'', JStrs [''halal''])] 2)) \<le> 2
   \<and> suggest_menu_items mock_items [(''dietaryPreferences'', JStrs [''halal''])] 2
       = suggest_menu_items mock_items [] 2
   \<and> suggest_menu_items mock_items [(''dietaryPreferences'', JStrs [''halal''])] 2 = take 2 mock_items
   \<and> dietary_prefs_of [(''dietaryPreferences'', JStrs [''halal''])] = [''halal'']
   \<and> list_all (\<lambda>item. \<not> diet_match [''halal''] item) mock_items"
proof -
  let ?p = "[(''dietaryPreferences'', JStrs [''halal''])]"
  have p: "dietary_prefs_of ?p = [''halal'']"
    by (simp add: dietary_prefs_of_def dict_get_def)
  have n: "list_all (\<lambda>item. \<not> diet_match [''halal''] item) mock_items"
    by (simp add: mock_items_def diet_match_def item_diets_def)
  then have h: "\<forall>item\<in>set mock_items. \<not> diet_match (dietary_prefs_of ?p) item"
    unfolding p by (simp add: list_all_iff)
  have ne: "mock_items \<noteq> []" by (simp add: mock_items_def)
  have v: "suggest_menu_items mock_items [] 2 = take 2 mock_items"
    by (simp add: suggest_menu_items_def mock_items_def diet_filter_def dietary_prefs_of_def
        dict_get_def slice_to_def item_category_def)
  have a: "int (length (suggest_menu_items mock_items ?p 2)) \<le> 2"
    using suggest_bounded[of 2 mock_items ?p] by linarith
  have b: "suggest_menu_items mock_items ?p 2 = suggest_menu_items mock_items [] 2"
    using suggest_bounded[of 2 mock_items ?p] h by blast
  from a b v p n show ?thesis by simp
qed

section \<open>The demo catalog (C7)\<close>

text \<open>
  C7, as it is written: without a database handle \<open>get_menu_items\<close> returns the fixed demo
  catalog of five items for any diet filter. With the filter \<open>['vegan']\<close> it returns two
  items, and with \<open>['halal']\<close> none.
\<close>

theorem mock_catalog_counterexample:
  "get_menu_items None (Some [''vegan'']) \<noteq> mock_items
   \<and> length (get_menu_items None (Some [''vegan''])) = 2
   \<and> get_menu_items None (Some [''halal'']) = []"
  by (simp add: get_menu_items_def get_mock_menu_items_def mock_items_def mock_match_def)

text \<open>
  C7, amended: without a database handle \<open>get_menu_items\<close> returns the fixed demo catalog
  of five items when the diet filter is \<open>None\<close> or empty; for a non-empty filter it
  returns, in catalog order, the demo items that carry at least one of the filter's tags
  (possibly none). In every case the result is a subsequence of the demo catalog, and a
  store whose query raises is answered in the same way.
\<close>

theorem mock_catalog_filtered:
  "get_menu_items None None = mock_items
   \<and> get_menu_items None (Some []) = mock_items
   \<and> length mock_items = 5
   \<and> (fs \<noteq> [] \<longrightarrow>
        get_menu_items None (Some fs)
          = filter (\<lambda>item. \<exists>diet\<in>set fs. diet \<in> set (item_diets item)) mock_items)
   \<and> subseq (get_menu_items None diet_filters) mock_items
   \<and> (query (if truthy diet_filters then diet_filters else None) = Inl e \<longrightarrow>
        get_menu_items (Some query) diet_filters = get_menu_items None diet_filters)"
proof -
  have 1: "get_menu_items None None = mock_items" "get_menu_items None (Some []) = mock_items"
    by (simp_all add: get_menu_items_def get_mock_menu_items_def)
  have 2: "length mock_items = 5" by (simp add: mock_items_def)
  have 3: "fs \<noteq> [] \<longrightarrow>
        get_menu_items None (Some fs)
          = filter (\<lambda>item. \<exists>diet\<in>set fs. diet \<in> set (item_diets item)) mock_items"
    by (simp add: get_menu_items_def get_mock_menu_items_def mock_match_iff[abs_def])
  have 4: "subseq (get_menu_items None diet_filters) mock_items"
    by (simp add: get_menu_items_def get_mock_menu_items_def split: option.splits)
  have 5: "query (if truthy diet_filters then diet_filters else None) = Inl e \<longrightarrow>
        get_menu_items (Some query) diet_filters = get_menu_items None diet_filters"
    by (simp add: get_menu_items_def)
  show ?thesis by (intro conjI 1 2 3 4 5)
qed

text \<open>The filters \<open>['vegan']\<close> and \<open>['vegetarian', 'kosher']\<close> each keep two demo items.\<close>

theorem mock_catalog_filtered_witness:
  "[''vegan''] \<noteq> []
   \<and> get_menu_items None (Some [''vegan'']) = [mock_items ! 2, mock_items ! 4]
   \<and> get_menu_items None (Some [''vegetarian'', ''kosher'']) = [mock_items ! 0, mock_items ! 3]"
proof -
  have a: "filter (\<lambda>item. \<exists>diet\<in>set [''vegan'']. diet \<in> set (item_diets item)) mock_items
      = [mock_items ! 2, mock_items ! 4]"
    by (simp add: mock_items_def item_diets_def)
  have b: "filter (\<lambda>item. \<exists>diet\<in>set [''vegetarian'', ''kosher'']. diet \<in> set (item_diets item))
      mock_items = [mock_items ! 0, mock_items ! 3]"
    by (simp add: mock_items_def item_diets_def)
  from mock_catalog_filtered[of "[''vegan'']"] a
  have "get_menu_items None (Some [''vegan'']) = [mock_items ! 2, mock_items ! 4]"
    by simp
  moreover from mock_catalog_filtered[of "[''vegetarian'', ''kosher'']"] b
  have "get_menu_items None (Some [''vegetarian'', ''kosher'']) = [mock_items ! 0, mock_items ! 3]"
    by simp
  ultimately show ?thesis by simp
qed

section \<open>Bounds of the prompt (C6)\<close>

text \<open>
  C6: for every catalog, profile, history and new message, the composed prompt is the
  prompt composed from the first 10 catalog items and the last 3 exchanges with each reply
  cut to its first 200 characters: nothing beyond them reaches it. Whenever the prompt
  parts are built, the menu section is empty for an empty catalog and otherwise the
  heading and one line for each of the first 10 items (at most 11 lines); the context part
  is present exactly when the profile is not empty; the history section is empty for an
  empty history and otherwise the heading and, for each of the last 3 exchanges, the
  user's line and the assistant's line with the reply cut by \<open>[:200]\<close> and followed by
  three dots (at most 7 lines).
\<close>

theorem prompt_is_bounded:
  "build_enhanced_prompt sp dumps hist msg items ctx
     = build_enhanced_prompt sp dumps (map truncate_reply (last3 hist)) msg (take 10 items) ctx
   \<and> (\<forall>parts. prompt_parts sp dumps hist msg items ctx = Inr parts \<longrightarrow>
        (\<exists>menu. menu_section items = Inr menu \<and> length menu \<le> 11
           \<and> (items = [] \<longrightarrow> menu = [])
           \<and> (items \<noteq> [] \<longrightarrow>
                (\<exists>lines. item_lines (take 10 items) = Inr lines
                   \<and> length lines = min 10 (length items)
                   \<and> menu = (CHR 0x0A # ''AVAILABLE MENU ITEMS:'') # lines))
           \<and> parts = [sp] @ menu @ context_section dumps ctx @ history_section hist
               @ [(CHR 0x0A # ''CURRENT USER MESSAGE: '') @ msg,
                  CHR 0x0A # ''Please provide a helpful, creative response as the Event Planning Assistant:'']))
   \<and> context_section dumps ctx
       = (if ctx = [] then [] else [(CHR 0x0A # ''CONTEXT: '') @ dumps ctx])
   \<and> length (history_section hist) \<le> 7
   \<and> (hist = [] \<longrightarrow> history_section hist = [])
   \<and> (hist \<noteq> [] \<longrightarrow>
        history_section hist
          = (CHR 0x0A # ''RECENT CONVERSATION:'')
            # concat (map (\<lambda>e. [''User: '' @ user e,
                                 ''Assistant: '' @ take 200 (assistant e) @ ''...''])
                       (drop (length hist - 3) hist)))"
proof -
  have 1: "build_enhanced_prompt sp dumps hist msg items ctx
     = build_enhanced_prompt sp dumps (map truncate_reply (last3 hist)) msg (take 10 items) ctx"
    by (simp only: build_enhanced_prompt_def prompt_parts_def menu_section_take
        history_section_truncate)
  have 2: "\<exists>menu. menu_section items = Inr menu \<and> length menu \<le> 11
           \<and> (items = [] \<longrightarrow> menu = [])
           \<and> (items \<noteq> [] \<longrightarrow>
                (\<exists>lines. item_lines (take 10 items) = Inr lines
                   \<and> length lines = min 10 (length items)
                   \<and> menu = (CHR 0x0A # ''AVAILABLE MENU ITEMS:'') # lines))
           \<and> parts = [sp] @ menu @ context_section dumps ctx @ history_section hist
               @ [(CHR 0x0A # ''CURRENT USER MESSAGE: '') @ msg,
                  CHR 0x0A # ''Please provide a helpful, creative response as the Event Planning Assistant:'']"
    if p: "prompt_parts sp dumps hist msg items ctx = Inr parts" for parts
  proof -
    from p obtain menu where m: "menu_section items = Inr menu"
      and parts: "parts = [sp] @ menu @ context_section dumps ctx @ history_section hist
               @ [(CHR 0x0A # ''CURRENT USER MESSAGE: '') @ msg,
                  CHR 0x0A # ''Please provide a helpful, creative response as the Event Planning Assistant:'']"
      by (auto simp: prompt_parts_def split: sum.splits)
    have a: "length menu \<le> 11" using m by (rule menu_section_length)
    have b: "items = [] \<longrightarrow> menu = []" using m by (auto simp: menu_section_def)
    have c: "items \<noteq> [] \<longrightarrow>
                (\<exists>lines. item_lines (take 10 items) = Inr lines
                   \<and> length lines = min 10 (length items)
                   \<and> menu = (CHR 0x0A # ''AVAILABLE MENU ITEMS:'') # lines)"
    proof
      assume "items \<noteq> []"
      with m obtain lines where l: "item_lines (take 10 items) = Inr lines"
        "menu = (CHR 0x0A # ''AVAILABLE MENU ITEMS:'') # lines"
        by (auto simp: menu_section_def split: sum.splits)
      from item_lines_length[OF l(1)] have "length lines = min 10 (length items)"
        by (simp add: min.commute)
      with l show "\<exists>lines. item_lines (take 10 items) = Inr lines
                   \<and> length lines = min 10 (length items)
                   \<and> menu = (CHR 0x0A # ''AVAILABLE MENU ITEMS:'') # lines"
        by blast
    qed
    from m a b c parts show ?thesis by blast
  qed
  have 3: "context_section dumps ctx
       = (if ctx = [] then [] else [(CHR 0x0A # ''CONTEXT: '') @ dumps ctx])"
    by (simp add: context_section_def)
  have 4: "length (history_section hist) \<le> 7"
    by (rule history_section_length)
  have 5: "hist = [] \<longrightarrow> history_section hist = []"
    by (simp add: history_section_def)
  have 6: "hist \<noteq> [] \<longrightarrow>
        history_section hist
          = (CHR 0x0A # ''RECENT CONVERSATION:'')
            # concat (map (\<lambda>e. [''User: '' @ user e,
                                 ''Assistant: '' @ take 200 (assistant e) @ ''...''])
                       (drop (length hist - 3) hist))"
    by (simp add: history_section_def last3_def entry_lines_def[abs_def])
  from 2 have all2: "\<forall>parts. prompt_parts sp dumps hist msg items ctx = Inr parts \<longrightarrow>
        (\<exists>menu. menu_section items = Inr menu \<and> length menu \<le> 11
           \<and> (items = [] \<longrightarrow> menu = [])
           \<and> (items \<noteq> [] \<longrightarrow>
                (\<exists>lines. item_lines (take 10 items) = Inr lines
                   \<and> length lines = min 10 (length items)
                   \<and> menu = (CHR 0x0A # ''AVAILABLE MENU ITEMS:'') # lines))
           \<and> parts = [sp] @ menu @ context_section dumps ctx @ history_section hist
               @ [(CHR 0x0A # ''CURRENT USER MESSAGE: '') @ msg,
                  CHR 0x0A # ''Please provide a helpful, creative response as the Event Planning Assistant:''])"
    by blast
  show ?thesis by (intro conjI 1 all2 3 4 5 6)
qed

text \<open>Four exchanges, one with a reply of 250 characters, and a catalog of 12 items.\<close>

theorem prompt_is_bounded_witness:
  "build_enhanced_prompt ''S'' (\<lambda>d. ''{}'')
      [\<lparr>user = ''u1'', assistant = ''a1'', timestamp = 1\<rparr>,
       \<lparr>user = ''u2'', assistant = replicate 250 (CHR ''x''), timestamp = 2\<rparr>,
       \<lparr>user = ''u3'', assistant = ''a3'', timestamp = 3\<rparr>,
       \<lparr>user = ''u4'', assistant = ''a4'', timestamp = 4\<rparr>]
      ''hi'' (replicate 12 (mock_items ! 0)) []
   = build_enhanced_prompt ''S'' (\<lambda>d. ''{}'')
      [\<lparr>user = ''u2'', assistant = replicate 200 (CHR ''x''), timestamp = 2\<rparr>,
       \<lparr>user = ''u3'', assistant = ''a3'', timestamp = 3\<rparr>,
       \<lparr>user = ''u4'', assistant = ''a4'', timestamp = 4\<rparr>]
      ''hi'' (replicate 10 (mock_items ! 0)) []
   \<and> length (history_section
      [\<lparr>user = ''u1'', assistant = ''a1'', timestamp = 1\<rparr>,
       \<lparr>user = ''u2'', assistant = replicate 250 (CHR ''x''), timestamp = 2\<rparr>,
       \<lparr>user = ''u3'', assistant = ''a3'', timestamp = 3\<rparr>,
       \<lparr>user = ''u4'', assistant = ''a4'', timestamp = 4\<rparr>]) = 7
   \<and> (\<exists>menu. menu_section (replicate 12 (mock_items ! 0)) = Inr menu \<and> length menu = 11)"
proof -
  let ?h = "[\<lparr>user = ''u1'', assistant = ''a1'', timestamp = 1\<rparr>,
       \<lparr>user = ''u2'', assistant = replicate 250 (CHR ''x''), timestamp = 2\<rparr>,
       \<lparr>user = ''u3'', assistant = ''a3'', timestamp = 3\<rparr>,
       \<lparr>user = ''u4'', assistant = ''a4'', timestamp = 4\<rparr>]"
  let ?items = "replicate 12 (mock_items ! 0)"
  note b = prompt_is_bounded[of "''S''" "\<lambda>d. ''{}''" ?h "''hi''" ?items "[]"]
  have h: "map truncate_reply (last3 ?h) =
      [\<lparr>user = ''u2'', assistant = replicate 200 (CHR ''x''), timestamp = 2\<rparr>,
       \<lparr>user = ''u3'', assistant = ''a3'', timestamp = 3\<rparr>,
       \<lparr>user = ''u4'', assistant = ''a4'', timestamp = 4\<rparr>]"
    by (simp add: last3_def truncate_reply_def)
  have i: "take 10 ?items = replicate 10 (mock_items ! 0)"
    by simp
  from b have 1: "build_enhanced_prompt ''S'' (\<lambda>d. ''{}'') ?h ''hi'' ?items []
      = build_enhanced_prompt ''S'' (\<lambda>d. ''{}'') (map truncate_reply (last3 ?h)) ''hi''
          (take 10 ?items) []"
    by (rule conjunct1)
  have il: "item_lines (replicate n (mock_items ! 0)) =
      Inr (replicate n ''- Classic Caesar Salad ($12.99) - Appetizers - Dietary: vegetarian'')" for n
    by (induction n) (simp_all add: mock_items_def item_line_def item_diets_def)
  have 2: "length (history_section ?h) = 7"
    by (simp add: history_section_def last3_def entry_lines_def)
  have 3: "\<exists>menu. menu_section ?items = Inr menu \<and> length menu = 11"
    unfolding menu_section_def i il by simp
  from 1 2 3 show ?thesis unfolding h i by blast
qed

section \<open>The profile never shrinks (C2)\<close>




section \<open>Failure of the generation call (C3)\<close>


text \<open>
  C3, amended: when the generation call fails (\<open>self.chat\<close> is unset or \<open>None\<close>, the
  prompt cannot be composed, or the provider call raises), \<open>generate_response\<close> returns
  the keyword-selected fallback response instead of propagating the failure, and it leaves
  the assistant's \<open>conversation_history\<close> as it was: the exchange is appended there only
  when the provider answers. The chat page does record the turn in either case: after
  every non-blank message its \<open>chat_history\<close> has grown by the user's message and the
  returned reply, which on failure is the fallback response.
\<close>



end
